theory Spec2Isabelle
  imports Main
begin

section \<open>The sudoku log formatter (format-sudoku-simple.py)\<close>

text \<open>
  The script reads lines from standard input, collects the integers among them into
  grids, and prints the first two grids as bordered 9x9 tables. The model below follows
  the script function by function.

  Text is modelled as \<open>string\<close>, the list of the bytes of its UTF-8 encoding; the
  script's Russian literals are written byte by byte. Standard output is the list of the
  arguments of the \<open>print\<close> calls made so far, oldest first; \<open>stdout_text\<close> is the text
  those calls write.
\<close>

subsection \<open>Python built-ins used by the script\<close>

datatype py_error = ValueError

definition newline :: char where
  "newline = CHR 0x0A"

text \<open>\<open>str.isspace\<close> on the ASCII range: tab, line feed, vertical tab, form feed,
  carriage return, the four separators 0x1C..0x1F and the space.\<close>

definition is_space :: "char \<Rightarrow> bool" where
  "is_space c = (let n = (of_char c :: nat) in (9 \<le> n \<and> n \<le> 13) \<or> (28 \<le> n \<and> n \<le> 32))"

definition strip :: "string \<Rightarrow> string" where
  "strip s = rev (dropWhile is_space (rev (dropWhile is_space s)))"

definition is_digit :: "char \<Rightarrow> bool" where
  "is_digit c = (let n = (of_char c :: nat) in 48 \<le> n \<and> n \<le> 57)"

definition digit_val :: "char \<Rightarrow> nat" where
  "digit_val c = of_char c - 48"

text \<open>The digits of a decimal literal after its first digit: a single underscore may
  stand between two digits.\<close>

fun parse_digits :: "nat \<Rightarrow> string \<Rightarrow> py_error + nat" where
  "parse_digits acc [] = Inr acc"
| "parse_digits acc [c] =
     (if is_digit c then Inr (acc * 10 + digit_val c) else Inl ValueError)"
| "parse_digits acc (c # d # ds) =
     (if is_digit c then parse_digits (acc * 10 + digit_val c) (d # ds)
      else if c = CHR ''_'' \<and> is_digit d then parse_digits (acc * 10 + digit_val d) ds
      else Inl ValueError)"

definition parse_unsigned :: "string \<Rightarrow> py_error + nat" where
  "parse_unsigned s =
     (case s of
        [] \<Rightarrow> Inl ValueError
      | c # cs \<Rightarrow> if is_digit c then parse_digits (digit_val c) cs else Inl ValueError)"

text \<open>\<open>int(s)\<close> in base 10 on ASCII text: surrounding whitespace is dropped, then an
  optional sign and a decimal literal must fill the rest; anything else raises
  \<open>ValueError\<close>. Digits outside ASCII, and the limit that recent interpreters put on
  the number of digits, are not modelled; the properties below depend on the result
  of \<open>int\<close> only.\<close>

definition py_int :: "string \<Rightarrow> py_error + int" where
  "py_int s =
     (case strip s of
        [] \<Rightarrow> Inl ValueError
      | c # cs \<Rightarrow>
          if c = CHR ''-'' then map_sum id (\<lambda>n. - int n) (parse_unsigned cs)
          else if c = CHR ''+'' then map_sum id int (parse_unsigned cs)
          else map_sum id int (parse_unsigned (c # cs)))"

definition digit_char :: "nat \<Rightarrow> char" where
  "digit_char d = char_of (48 + d)"

text \<open>\<open>str(n)\<close> for an integer: its decimal digits, with a minus sign when negative.\<close>

fun str_nat :: "nat \<Rightarrow> string" where
  "str_nat n = (if n < 10 then [digit_char n] else str_nat (n div 10) @ [digit_char (n mod 10)])"

declare str_nat.simps [simp del]

definition str_int :: "int \<Rightarrow> string" where
  "str_int i = (if i < 0 then CHR ''-'' # str_nat (nat (- i)) else str_nat (nat i))"

text \<open>The value bound to \<open>display_val\<close> is either the text \<open>"."\<close> or an integer.\<close>

datatype py_value = PyStr string | PyInt int

definition rjust :: "nat \<Rightarrow> string \<Rightarrow> string" where
  "rjust w s = replicate (w - length s) CHR '' '' @ s"

text \<open>The format specification \<open>>2\<close>: right-aligned in a field of at least 2.\<close>

fun format_right2 :: "py_value \<Rightarrow> string" where
  "format_right2 (PyStr s) = rjust 2 s"
| "format_right2 (PyInt n) = rjust 2 (str_int n)"

type_synonym stdout = "string list"

definition py_print :: "string \<Rightarrow> stdout \<Rightarrow> stdout" where
  "py_print s out = out @ [s]"

definition stdout_text :: "stdout \<Rightarrow> string" where
  "stdout_text out = concat (map (\<lambda>s. s @ [newline]) out)"

subsection \<open>print_grid\<close>

text \<open>One pass of the inner loop over \<open>j\<close>: the row text so far, extended by one cell.\<close>

definition row_cell :: "int list \<Rightarrow> nat \<Rightarrow> string \<Rightarrow> nat \<Rightarrow> string" where
  "row_cell grid i row_str j =
     (let idx = i * 9 + j;
          display_val =
            (if idx < length grid
             then (let val = grid ! idx in if val = 0 then PyStr ''.'' else PyInt val)
             else PyStr ''.'');
          row_str = (if j > 0 \<and> j mod 3 = 0 then row_str @ ''| '' else row_str)
      in row_str @ format_right2 display_val @ '' '')"

text \<open>One pass of the outer loop over \<open>i\<close>: the separator when due, then the row.\<close>

definition grid_row :: "int list \<Rightarrow> stdout \<Rightarrow> nat \<Rightarrow> stdout" where
  "grid_row grid out i =
     (let out = (if i > 0 \<and> i mod 3 = 0
                 then py_print ''-----------------------------------'' out else out);
          row_str = foldl (row_cell grid i) ''| '' [0..<9];
          row_str = row_str @ ''|''
      in py_print row_str out)"

definition print_grid :: "string \<Rightarrow> int list \<Rightarrow> stdout \<Rightarrow> stdout" where
  "print_grid label grid out =
     (let out = py_print (newline # replicate 37 CHR ''='') out;
          out = py_print label out;
          out = py_print (replicate 37 CHR ''='') out;
          out = foldl (grid_row grid) out [0..<9];
          out = py_print (replicate 37 CHR ''='') out
      in py_print [] out)"

subsection \<open>format_sudoku\<close>

text \<open>The local variables of \<open>format_sudoku\<close> that are read again after being set,
  and the standard output. (\<open>numbers\<close> is initialised and never used.)\<close>

record state =
  current_grid :: "int list"
  grids :: "int list list"
  printed :: stdout

definition init :: state where
  "init = \<lparr>current_grid = [], grids = [], printed = []\<rparr>"

text \<open>The body of the loop over the lines of standard input. Every \<open>continue\<close> of
  the source, and the handler of \<open>ValueError\<close>, returns the state as it stands.\<close>

definition process_line :: "state \<Rightarrow> string \<Rightarrow> state" where
  "process_line s raw =
     (let line = strip raw in
      if line = [] then s
      else case py_int line of
        Inl ValueError \<Rightarrow> s
      | Inr num \<Rightarrow>
          if num = 100 then
            s\<lparr>grids := (if current_grid s \<noteq> [] then grids s @ [current_grid s] else grids s),
              current_grid := []\<rparr>
          else if num = 200 then
            s\<lparr>grids := (if current_grid s \<noteq> [] \<and> length (current_grid s) \<ge> 81
                         then grids s @ [take 81 (current_grid s)] else grids s),
              current_grid := []\<rparr>
          else if num < 0 \<or> (num \<ge> 100 \<and> num \<noteq> 200) then s
          else
            (let cg = current_grid s @ [num] in
             if length cg \<ge> 81
             then s\<lparr>grids := grids s @ [take 81 cg], current_grid := []\<rparr>
             else s\<lparr>current_grid := cg\<rparr>))"

definition read_loop :: "state \<Rightarrow> string list \<Rightarrow> state" where
  "read_loop s stdin = foldl process_line s stdin"

text \<open>After the loop: the last grid, when it is there.\<close>

definition final_flush :: "state \<Rightarrow> state" where
  "final_flush s =
     (if current_grid s \<noteq> [] \<and> length (current_grid s) \<ge> 81
      then s\<lparr>grids := grids s @ [take 81 (current_grid s)]\<rparr> else s)"

definition label_initial :: string where
  "label_initial =
     [CHR 0xD0, CHR 0x9D, CHR 0xD0, CHR 0xB0, CHR 0xD1, CHR 0x87, CHR 0xD0, CHR 0xB0,
      CHR 0xD0, CHR 0xBB, CHR 0xD1, CHR 0x8C, CHR 0xD0, CHR 0xBD, CHR 0xD0, CHR 0xB0,
      CHR 0xD1, CHR 0x8F, CHR 0x20, CHR 0xD1, CHR 0x81, CHR 0xD0, CHR 0xB5, CHR 0xD1,
      CHR 0x82, CHR 0xD0, CHR 0xBA, CHR 0xD0, CHR 0xB0, CHR 0x3A]"

definition label_solved :: string where
  "label_solved =
     [CHR 0xD0, CHR 0xA0, CHR 0xD0, CHR 0xB5, CHR 0xD1, CHR 0x88, CHR 0xD0, CHR 0xB5,
      CHR 0xD0, CHR 0xBD, CHR 0xD0, CHR 0xBD, CHR 0xD0, CHR 0xB0, CHR 0xD1, CHR 0x8F,
      CHR 0x20, CHR 0xD1, CHR 0x81, CHR 0xD0, CHR 0xB5, CHR 0xD1, CHR 0x82, CHR 0xD0,
      CHR 0xBA, CHR 0xD0, CHR 0xB0, CHR 0x3A]"

definition note_no_solved :: string where
  "note_no_solved =
     [CHR 0x0A, CHR 0xD0, CHR 0x9F, CHR 0xD1, CHR 0x80, CHR 0xD0, CHR 0xB8, CHR 0xD0,
      CHR 0xBC, CHR 0xD0, CHR 0xB5, CHR 0xD1, CHR 0x87, CHR 0xD0, CHR 0xB0, CHR 0xD0,
      CHR 0xBD, CHR 0xD0, CHR 0xB8, CHR 0xD0, CHR 0xB5, CHR 0x3A, CHR 0x20, CHR 0xD0,
      CHR 0xA0, CHR 0xD0, CHR 0xB5, CHR 0xD1, CHR 0x88, CHR 0xD0, CHR 0xB5, CHR 0xD0,
      CHR 0xBD, CHR 0xD0, CHR 0xBD, CHR 0xD0, CHR 0xB0, CHR 0xD1, CHR 0x8F, CHR 0x20,
      CHR 0xD1, CHR 0x81, CHR 0xD0, CHR 0xB5, CHR 0xD1, CHR 0x82, CHR 0xD0, CHR 0xBA,
      CHR 0xD0, CHR 0xB0, CHR 0x20, CHR 0xD0, CHR 0xBD, CHR 0xD0, CHR 0xB5, CHR 0x20,
      CHR 0xD0, CHR 0xBD, CHR 0xD0, CHR 0xB0, CHR 0xD0, CHR 0xB9, CHR 0xD0, CHR 0xB4,
      CHR 0xD0, CHR 0xB5, CHR 0xD0, CHR 0xBD, CHR 0xD0, CHR 0xB0]"

text \<open>The printing part: what is written for a given collection of grids.\<close>

definition print_grids :: "int list list \<Rightarrow> stdout \<Rightarrow> stdout" where
  "print_grids gs out =
     (let out = (if length gs \<ge> 1 then print_grid label_initial (gs ! 0) out else out)
      in if length gs \<ge> 2 then print_grid label_solved (gs ! 1) out
         else if length gs = 1 \<and> length (gs ! 0) = 81 then py_print note_no_solved out
         else out)"

definition format_sudoku :: "string list \<Rightarrow> state" where
  "format_sudoku stdin =
     (let s = final_flush (read_loop init stdin)
      in s\<lparr>printed := print_grids (grids s) (printed s)\<rparr>)"

text \<open>The collection at the end of the reading part, and the output of the script.\<close>

definition collect :: "string list \<Rightarrow> int list list" where
  "collect stdin = grids (final_flush (read_loop init stdin))"

definition run_output :: "string list \<Rightarrow> stdout" where
  "run_output stdin = printed (format_sudoku stdin)"

text \<open>Whether a line of input reaches the last branch of the loop body: it parses
  to a cell value, 0 to 99.\<close>

definition is_cell_line :: "string \<Rightarrow> bool" where
  "is_cell_line l = (case py_int (strip l) of Inl e \<Rightarrow> False | Inr n \<Rightarrow> 0 \<le> n \<and> n \<le> 99)"

text \<open>The grids appended by a line parsing to 100 that arrives on a non-empty buffer,
  oldest first, when the lines are processed from state \<open>s\<close>: each is the buffer as it
  stood when that line arrived.\<close>

fun marker_100_flushes :: "state \<Rightarrow> string list \<Rightarrow> int list list" where
  "marker_100_flushes s [] = []"
| "marker_100_flushes s (l # ls) =
     (if py_int (strip l) = Inr 100 \<and> current_grid s \<noteq> [] then [current_grid s] else [])
     @ marker_100_flushes (process_line s l) ls"

subsection \<open>The table layout in the words of the specification\<close>

text \<open>The display value of the cell at row-major index \<open>k\<close>: the stored integer, or
  the placeholder when the stored value is 0 or the index is beyond the grid.\<close>

definition spec_display :: "int list \<Rightarrow> nat \<Rightarrow> string" where
  "spec_display grid k = (if k < length grid \<and> grid ! k \<noteq> 0 then str_int (grid ! k) else ''.'')"

text \<open>A cell: the display value right-aligned in width 2, then one space.\<close>

definition spec_cell :: "int list \<Rightarrow> nat \<Rightarrow> string" where
  "spec_cell grid k = rjust 2 (spec_display grid k) @ '' ''"

text \<open>A row: a leading bar, nine cells with a bar before columns 3 and 6, a closing bar.\<close>

definition spec_row :: "int list \<Rightarrow> nat \<Rightarrow> string" where
  "spec_row grid i =
     ''| '' @ concat (map (\<lambda>j. (if j = 3 \<or> j = 6 then ''| '' else []) @ spec_cell grid (i * 9 + j)) [0..<9])
     @ ''|''"

text \<open>The lines of a rendered grid, top to bottom.\<close>

definition spec_lines :: "string \<Rightarrow> int list \<Rightarrow> string list" where
  "spec_lines label grid =
     [[], replicate 37 CHR ''='', label, replicate 37 CHR ''='']
     @ concat (map (\<lambda>i. (if i = 3 \<or> i = 6 then [replicate 35 CHR ''-''] else []) @ [spec_row grid i]) [0..<9])
     @ [replicate 37 CHR ''='', []]"

definition unlines :: "string list \<Rightarrow> string" where
  "unlines ls = concat (map (\<lambda>l. l @ [newline]) ls)"

section \<open>Properties of the reading loop\<close>

subsection \<open>The branches of the loop body\<close>


lemma strip_Nil: "strip [] = []"
  by (simp add: strip_def)

lemma py_int_Nil: "py_int [] = Inl ValueError"
  by (simp add: py_int_def strip_Nil)

lemma parsed_not_blank: "py_int (strip l) = Inr n \<Longrightarrow> strip l \<noteq> []"
  using py_int_Nil by force

lemma process_line_blank: "strip l = [] \<Longrightarrow> process_line s l = s"
  by (simp add: process_line_def)

lemma process_line_error: "py_int (strip l) = Inl e \<Longrightarrow> process_line s l = s"
  by (cases e) (simp add: process_line_def Let_def)

lemma process_line_100:
  assumes "py_int (strip l) = Inr 100"
  shows "process_line s l =
     s\<lparr>grids := (if current_grid s \<noteq> [] then grids s @ [current_grid s] else grids s),
       current_grid := []\<rparr>"
  using assms parsed_not_blank [OF assms] by (simp add: process_line_def Let_def)

lemma process_line_200:
  assumes "py_int (strip l) = Inr 200"
  shows "process_line s l =
     s\<lparr>grids := (if current_grid s \<noteq> [] \<and> length (current_grid s) \<ge> 81
                  then grids s @ [take 81 (current_grid s)] else grids s),
       current_grid := []\<rparr>"
  using assms parsed_not_blank [OF assms] by (simp add: process_line_def Let_def)

lemma process_line_noise:
  assumes "py_int (strip l) = Inr n" and "n < 0 \<or> (n \<ge> 100 \<and> n \<noteq> 100 \<and> n \<noteq> 200)"
  shows "process_line s l = s"
  using assms parsed_not_blank [OF assms(1)] by (auto simp add: process_line_def Let_def)

lemma process_line_cell:
  assumes "py_int (strip l) = Inr n" and "0 \<le> n" and "n \<le> 99"
  shows "process_line s l =
     (if length (current_grid s) \<ge> 80
      then s\<lparr>grids := grids s @ [take 81 (current_grid s @ [n])], current_grid := []\<rparr>
      else s\<lparr>current_grid := current_grid s @ [n]\<rparr>)"
  using assms parsed_not_blank [OF assms(1)] by (auto simp add: process_line_def Let_def)

lemma line_cases:
  obtains (skip) "strip l = [] \<or> py_int (strip l) = Inl ValueError"
  | (m100) "py_int (strip l) = Inr 100"
  | (m200) "py_int (strip l) = Inr 200"
  | (noise) n where "py_int (strip l) = Inr n" "n < 0 \<or> (n \<ge> 100 \<and> n \<noteq> 100 \<and> n \<noteq> 200)"
  | (cell) n where "py_int (strip l) = Inr n" "0 \<le> n" "n \<le> 99"
proof (cases "py_int (strip l)")
  case (Inl e)
  then show ?thesis using skip by (cases e) simp
next
  case (Inr n)
  then show ?thesis using m100 m200 noise cell
    by (cases "n = 100"; cases "n = 200"; cases "n < 0"; cases "n \<le> 99") auto
qed

lemma read_loop_Nil: "read_loop s [] = s"
  by (simp add: read_loop_def)

lemma read_loop_snoc: "read_loop s (ls @ [l]) = process_line (read_loop s ls) l"
  by (simp add: read_loop_def)

lemma read_loop_Cons: "read_loop s (l # ls) = read_loop (process_line s l) ls"
  by (simp add: read_loop_def)

lemma read_loop_append: "read_loop s (xs @ ys) = read_loop (read_loop s xs) ys"
  by (simp add: read_loop_def)

lemma process_line_printed: "printed (process_line s l) = printed s"
  by (cases l rule: line_cases)
     (auto simp add: process_line_blank process_line_error process_line_100 process_line_200
        process_line_noise process_line_cell)

lemma read_loop_printed: "printed (read_loop s ls) = printed s"
  by (induction ls rule: rev_induct) (simp_all add: read_loop_Nil read_loop_snoc process_line_printed)

text \<open>The accumulation buffer never holds 81 values when a line has been processed.\<close>

lemma process_line_buffer: "length (current_grid s) \<le> 80 \<Longrightarrow> length (current_grid (process_line s l)) \<le> 80"
  by (cases l rule: line_cases)
     (auto simp add: process_line_blank process_line_error process_line_100 process_line_200
        process_line_noise process_line_cell)

lemma read_loop_buffer: "length (current_grid s) \<le> 80 \<Longrightarrow> length (current_grid (read_loop s ls)) \<le> 80"
  by (induction ls rule: rev_induct) (simp_all add: read_loop_Nil read_loop_snoc process_line_buffer)

lemma reachable_buffer: "length (current_grid (read_loop init ls)) \<le> 80"
  by (rule read_loop_buffer) (simp add: init_def)


lemmas process_line_simps = process_line_blank process_line_error process_line_100 process_line_200
        process_line_noise process_line_cell

lemma final_flush_short: "length (current_grid s) \<le> 80 \<Longrightarrow> final_flush s = s"
  by (simp add: final_flush_def)

lemma collect_read_loop: "collect stdin = grids (read_loop init stdin)"
  by (simp add: collect_def final_flush_short reachable_buffer)

lemma process_line_sizes:
  assumes "length (current_grid s) \<le> 80"
    and "\<forall>g \<in> set (grids s). 1 \<le> length g \<and> length g \<le> 81"
  shows "\<forall>g \<in> set (grids (process_line s l)). 1 \<le> length g \<and> length g \<le> 81"
  using assms
  by (cases l rule: line_cases) (auto simp add: process_line_simps Suc_le_eq)

lemma read_loop_sizes:
  assumes "length (current_grid s) \<le> 80"
    and "\<forall>g \<in> set (grids s). 1 \<le> length g \<and> length g \<le> 81"
  shows "\<forall>g \<in> set (grids (read_loop s ls)). 1 \<le> length g \<and> length g \<le> 81"
proof (induction ls rule: rev_induct)
  case Nil
  show ?case using assms(2) by (simp add: read_loop_Nil)
next
  case (snoc l ls)
  show ?case
    unfolding read_loop_snoc
    by (rule process_line_sizes [OF read_loop_buffer [OF assms(1)] snoc.IH])
qed

lemma collect_sizes: "\<forall>g \<in> set (collect stdin). 1 \<le> length g \<and> length g \<le> 81"
  unfolding collect_read_loop by (rule read_loop_sizes) (simp_all add: init_def)

text \<open>Without the marker 100 every flush takes exactly 81 values.\<close>

lemma process_line_full:
  assumes "py_int (strip l) \<noteq> Inr 100"
    and "\<forall>g \<in> set (grids s). length g = 81"
  shows "\<forall>g \<in> set (grids (process_line s l)). length g = 81"
  using assms
  by (cases l rule: line_cases) (auto simp add: process_line_simps)

lemma read_loop_full:
  assumes "\<forall>l \<in> set ls. py_int (strip l) \<noteq> Inr 100"
    and "\<forall>g \<in> set (grids s). length g = 81"
  shows "\<forall>g \<in> set (grids (read_loop s ls)). length g = 81"
  using assms(1)
proof (induction ls rule: rev_induct)
  case Nil
  show ?case using assms(2) by (simp add: read_loop_Nil)
next
  case (snoc l ls)
  from snoc.prems have a: "py_int (strip l) \<noteq> Inr 100" and b: "\<forall>l \<in> set ls. py_int (strip l) \<noteq> Inr 100"
    by simp_all
  show ?case
    unfolding read_loop_snoc
    by (rule process_line_full [OF a snoc.IH [OF b]])
qed

text \<open>Only cell values, 0 to 99, are ever stored.\<close>

lemma process_line_values:
  assumes "\<forall>v \<in> set (current_grid s). 0 \<le> v \<and> v \<le> 99"
    and "\<forall>g \<in> set (grids s). \<forall>v \<in> set g. 0 \<le> v \<and> v \<le> 99"
  shows "(\<forall>v \<in> set (current_grid (process_line s l)). 0 \<le> v \<and> v \<le> 99)
       \<and> (\<forall>g \<in> set (grids (process_line s l)). \<forall>v \<in> set g. 0 \<le> v \<and> v \<le> 99)"
  using assms
  by (cases l rule: line_cases) (auto simp add: process_line_simps dest!: in_set_takeD)

lemma read_loop_values:
  assumes "\<forall>v \<in> set (current_grid s). 0 \<le> v \<and> v \<le> 99"
    and "\<forall>g \<in> set (grids s). \<forall>v \<in> set g. 0 \<le> v \<and> v \<le> 99"
  shows "(\<forall>v \<in> set (current_grid (read_loop s ls)). 0 \<le> v \<and> v \<le> 99)
       \<and> (\<forall>g \<in> set (grids (read_loop s ls)). \<forall>v \<in> set g. 0 \<le> v \<and> v \<le> 99)"
proof (induction ls rule: rev_induct)
  case Nil
  show ?case using assms by (simp add: read_loop_Nil)
next
  case (snoc l ls)
  show ?case
    unfolding read_loop_snoc
    using process_line_values [of "read_loop s ls" l] snoc.IH by blast
qed

lemma reachable_values:
  "(\<forall>v \<in> set (current_grid (read_loop init ls)). 0 \<le> v \<and> v \<le> 99)
   \<and> (\<forall>g \<in> set (grids (read_loop init ls)). \<forall>v \<in> set g. 0 \<le> v \<and> v \<le> 99)"
  by (rule read_loop_values) (simp_all add: init_def)

text \<open>Every collected grid and a non-empty buffer each account for a cell line of their own.\<close>

lemma is_cell_line_iff: "is_cell_line l \<longleftrightarrow> (\<exists>n. py_int (strip l) = Inr n \<and> 0 \<le> n \<and> n \<le> 99)"
  by (auto simp add: is_cell_line_def split: sum.splits)

lemma process_line_count:
  "length (grids (process_line s l)) + (if current_grid (process_line s l) = [] then 0 else 1)
     \<le> length (grids s) + (if current_grid s = [] then 0 else 1) + (if is_cell_line l then 1 else 0)"
  by (cases l rule: line_cases) (auto simp add: process_line_simps is_cell_line_iff)

lemma read_loop_count:
  "length (grids (read_loop s ls)) + (if current_grid (read_loop s ls) = [] then 0 else 1)
     \<le> length (grids s) + (if current_grid s = [] then 0 else 1) + length (filter is_cell_line ls)"
proof (induction ls rule: rev_induct)
  case Nil
  show ?case by (simp add: read_loop_Nil)
next
  case (snoc l ls)
  show ?case
    unfolding read_loop_snoc
    using process_line_count [of "read_loop s ls" l] snoc.IH by (simp split: if_splits)
qed

section \<open>The claims about the collector\<close>

lemma read_loop_cells:
  assumes "map (\<lambda>l. py_int (strip l)) ls = map Inr vs"
    and "\<forall>v \<in> set vs. 0 \<le> v \<and> v \<le> 99"
    and "length (current_grid s) + length vs \<le> 80"
  shows "read_loop s ls = s\<lparr>current_grid := current_grid s @ vs\<rparr>"
  using assms
proof (induction ls arbitrary: s vs)
  case Nil
  then show ?case by (simp add: read_loop_Nil)
next
  case (Cons l ls)
  from Cons.prems(1) obtain v ws where vs: "vs = v # ws"
    and l: "py_int (strip l) = Inr v" and ls: "map (\<lambda>l. py_int (strip l)) ls = map Inr ws"
    by (cases vs) auto
  from Cons.prems(2) vs have v: "0 \<le> v" "v \<le> 99" and ws: "\<forall>v \<in> set ws. 0 \<le> v \<and> v \<le> 99"
    by simp_all
  from Cons.prems(3) vs have short: "\<not> length (current_grid s) \<ge> 80"
    by simp
  have step: "process_line s l = s\<lparr>current_grid := current_grid s @ [v]\<rparr>"
    using process_line_cell [OF l v, of s] short by simp
  have "length (current_grid (process_line s l)) + length ws \<le> 80"
    using Cons.prems(3) vs step by simp
  from Cons.IH [OF ls ws this] show ?case
    by (simp add: read_loop_Cons step vs)
qed


text \<open>
  C1, as amended. The number of grids collected is not capped at two. It is bounded by
  the number of input lines that parse to a cell value (0 to 99): each collected grid
  accounts for at least one such line of its own.
\<close>

theorem collect_length_bound: "length (collect stdin) \<le> length (filter is_cell_line stdin)"
  unfolding collect_read_loop
  using read_loop_count [of init stdin] by (simp add: init_def split: if_splits)

theorem collect_length_bound_witness:
  "length (collect [''1'', ''100'', ''hello'', ''2'']) \<le> 2"
proof -
  have "length (filter is_cell_line [''1'', ''100'', ''hello'', ''2'']) = 2"
    by code_simp
  with collect_length_bound [of "[''1'', ''100'', ''hello'', ''2'']"] show ?thesis
    by simp
qed

text \<open>
  C1, as stated, fails: three values each followed by the marker 100 give three grids,
  and so do 243 cell values without any marker.
\<close>

theorem collect_three_grids:
  "collect [''1'', ''100'', ''2'', ''100'', ''3'', ''100''] = [[1], [2], [3]]
   \<and> length (collect (replicate 243 ''7'')) = 3"
proof
  show "collect [''1'', ''100'', ''2'', ''100'', ''3'', ''100''] = [[1], [2], [3]]"
    by code_simp
  show "length (collect (replicate 243 ''7'')) = 3"
    by code_simp
qed

text \<open>The grids of another length than 81 are those flushed by the marker 100.\<close>

lemma process_line_short_grids:
  assumes "length (current_grid s) \<le> 80"
  shows "filter (\<lambda>g. length g \<noteq> 81) (grids (process_line s l))
     = filter (\<lambda>g. length g \<noteq> 81) (grids s)
       @ (if py_int (strip l) = Inr 100 \<and> current_grid s \<noteq> [] then [current_grid s] else [])"
proof (cases l rule: line_cases)
  case skip
  then have "py_int (strip l) \<noteq> Inr 100"
    using py_int_Nil by auto
  with skip show ?thesis
    by (auto simp add: process_line_blank process_line_error)
next
  case m100
  then show ?thesis using assms by (simp add: process_line_100)
next
  case m200
  then show ?thesis using assms by (simp add: process_line_200)
next
  case (noise n)
  then show ?thesis by (auto simp add: process_line_noise)
next
  case (cell n)
  then have "py_int (strip l) \<noteq> Inr 100" by auto
  with cell show ?thesis using assms by (simp add: process_line_cell)
qed

lemma read_loop_short_grids:
  assumes "length (current_grid s) \<le> 80"
  shows "filter (\<lambda>g. length g \<noteq> 81) (grids (read_loop s ls))
     = filter (\<lambda>g. length g \<noteq> 81) (grids s) @ marker_100_flushes s ls"
  using assms
proof (induction ls arbitrary: s)
  case Nil
  show ?case by (simp add: read_loop_Nil)
next
  case (Cons l ls)
  from Cons.prems have "length (current_grid (process_line s l)) \<le> 80"
    by (rule process_line_buffer)
  from Cons.IH [OF this] show ?case
    by (simp add: read_loop_Cons process_line_short_grids [OF Cons.prems])
qed

lemma collect_short_grids:
  "filter (\<lambda>g. length g \<noteq> 81) (collect stdin) = marker_100_flushes init stdin"
  using read_loop_short_grids [of init stdin]
  by (simp add: collect_read_loop init_def)

lemma marker_100_flushes_sizes:
  assumes "length (current_grid s) \<le> 80"
  shows "\<forall>g \<in> set (marker_100_flushes s ls). 1 \<le> length g \<and> length g \<le> 80"
  using assms
proof (induction ls arbitrary: s)
  case Nil
  show ?case by simp
next
  case (Cons l ls)
  from Cons.prems have "length (current_grid (process_line s l)) \<le> 80"
    by (rule process_line_buffer)
  from Cons.IH [OF this] Cons.prems show ?case
    by (auto simp add: Suc_le_eq)
qed

lemma marker_100_flushes_none:
  assumes "\<forall>i < length ls. py_int (strip (ls ! i)) = Inr 100
             \<longrightarrow> current_grid (read_loop s (take i ls)) = []"
  shows "marker_100_flushes s ls = []"
  using assms
proof (induction ls arbitrary: s)
  case Nil
  show ?case by simp
next
  case (Cons l ls)
  from Cons.prems [rule_format, of 0]
  have head: "py_int (strip l) = Inr 100 \<longrightarrow> current_grid s = []"
    by (simp add: read_loop_Nil)
  have "\<forall>i < length ls. py_int (strip (ls ! i)) = Inr 100
             \<longrightarrow> current_grid (read_loop (process_line s l) (take i ls)) = []"
  proof (intro allI impI)
    fix i
    assume "i < length ls" and "py_int (strip (ls ! i)) = Inr 100"
    with Cons.prems [rule_format, of "Suc i"]
    show "current_grid (read_loop (process_line s l) (take i ls)) = []"
      by (simp add: read_loop_Cons)
  qed
  from Cons.IH [OF this] head show ?case
    by simp
qed

text \<open>
  C2, as amended. Every collected grid holds exactly 81 values, except the grids
  appended by a line parsing to 100 that arrives on a non-empty buffer: such a grid is
  the buffer as it stands, of 1 to 80 values. So every collected grid holds between 1
  and 81 values, and when every line parsing to 100 arrives on an empty buffer, every
  collected grid holds exactly 81. In the state reached after any input, a line other
  than such a 100 appends nothing or appends the buffer completed to exactly 81 values;
  nothing is ever cut off a grid.
\<close>

theorem collected_grid_sizes:
  "(\<forall>g \<in> set (collect stdin). 1 \<le> length g \<and> length g \<le> 81)
   \<and> filter (\<lambda>g. length g \<noteq> 81) (collect stdin) = marker_100_flushes init stdin
   \<and> (\<forall>g \<in> set (marker_100_flushes init stdin). 1 \<le> length g \<and> length g \<le> 80)
   \<and> ((\<forall>i < length stdin. py_int (strip (stdin ! i)) = Inr 100
          \<longrightarrow> current_grid (read_loop init (take i stdin)) = [])
        \<longrightarrow> (\<forall>g \<in> set (collect stdin). length g = 81))
   \<and> (py_int (strip l) = Inr 100 \<and> current_grid (read_loop init stdin) \<noteq> []
        \<longrightarrow> grids (process_line (read_loop init stdin) l)
              = grids (read_loop init stdin) @ [current_grid (read_loop init stdin)]
            \<and> 1 \<le> length (current_grid (read_loop init stdin))
            \<and> length (current_grid (read_loop init stdin)) \<le> 80)
   \<and> (\<not> (py_int (strip l) = Inr 100 \<and> current_grid (read_loop init stdin) \<noteq> [])
        \<longrightarrow> grids (process_line (read_loop init stdin) l) = grids (read_loop init stdin)
            \<or> (\<exists>n. grids (process_line (read_loop init stdin) l)
                     = grids (read_loop init stdin) @ [current_grid (read_loop init stdin) @ [n]]
                   \<and> length (current_grid (read_loop init stdin) @ [n]) = 81))"
proof (intro conjI impI)
  show "\<forall>g \<in> set (collect stdin). 1 \<le> length g \<and> length g \<le> 81"
    by (rule collect_sizes)
next
  show "filter (\<lambda>g. length g \<noteq> 81) (collect stdin) = marker_100_flushes init stdin"
    by (rule collect_short_grids)
next
  show "\<forall>g \<in> set (marker_100_flushes init stdin). 1 \<le> length g \<and> length g \<le> 80"
    by (rule marker_100_flushes_sizes) (simp add: init_def)
next
  assume "\<forall>i < length stdin. py_int (strip (stdin ! i)) = Inr 100
          \<longrightarrow> current_grid (read_loop init (take i stdin)) = []"
  then have "marker_100_flushes init stdin = []"
    by (rule marker_100_flushes_none)
  then have "filter (\<lambda>g. length g \<noteq> 81) (collect stdin) = []"
    by (simp add: collect_short_grids)
  then show "\<forall>g \<in> set (collect stdin). length g = 81"
    by (simp add: filter_empty_conv)
next
  assume a: "py_int (strip l) = Inr 100 \<and> current_grid (read_loop init stdin) \<noteq> []"
  have buf: "length (current_grid (read_loop init stdin)) \<le> 80"
    by (rule reachable_buffer)
  from a show "grids (process_line (read_loop init stdin) l)
              = grids (read_loop init stdin) @ [current_grid (read_loop init stdin)]"
    by (simp add: process_line_100)
  from a show "1 \<le> length (current_grid (read_loop init stdin))"
    by (cases "current_grid (read_loop init stdin)") simp_all
  from buf show "length (current_grid (read_loop init stdin)) \<le> 80" .
next
  assume a: "\<not> (py_int (strip l) = Inr 100 \<and> current_grid (read_loop init stdin) \<noteq> [])"
  have buf: "length (current_grid (read_loop init stdin)) \<le> 80"
    by (rule reachable_buffer)
  show "grids (process_line (read_loop init stdin) l) = grids (read_loop init stdin)
            \<or> (\<exists>n. grids (process_line (read_loop init stdin) l)
                     = grids (read_loop init stdin) @ [current_grid (read_loop init stdin) @ [n]]
                   \<and> length (current_grid (read_loop init stdin) @ [n]) = 81)"
  proof (cases l rule: line_cases)
    case skip
    then show ?thesis by (auto simp add: process_line_blank process_line_error)
  next
    case m100
    with a show ?thesis by (simp add: process_line_100)
  next
    case m200
    then show ?thesis using buf by (simp add: process_line_200)
  next
    case (noise n)
    then show ?thesis by (simp add: process_line_noise)
  next
    case (cell n)
    show ?thesis
    proof (cases "length (current_grid (read_loop init stdin)) \<ge> 80")
      case True
      with buf have "length (current_grid (read_loop init stdin)) = 80" by simp
      with cell show ?thesis by (simp add: process_line_cell)
    next
      case False
      with cell show ?thesis by (simp add: process_line_cell)
    qed
  qed
qed

theorem collected_grid_sizes_witness:
  "collect (''100'' # replicate 81 ''7'' @ ''200'' # replicate 81 ''8'')
     = [replicate 81 7, replicate 81 8]
   \<and> length (collect (''100'' # replicate 81 ''7'' @ ''200'' # replicate 81 ''8'') ! 0) = 81
   \<and> length (collect (''100'' # replicate 81 ''7'' @ ''200'' # replicate 81 ''8'') ! 1) = 81
   \<and> py_int (strip ''100'') = Inr 100
   \<and> current_grid (read_loop init [''5'', ''6'']) = [5, 6]
   \<and> grids (process_line (read_loop init [''5'', ''6'']) ''100'') = [[5, 6]]
   \<and> marker_100_flushes init [''5'', ''6'', ''100''] = [[5, 6]]
   \<and> filter (\<lambda>g. length g \<noteq> 81) (collect [''5'', ''6'', ''100'']) = [[5, 6]]"
proof -
  let ?X = "''100'' # replicate 81 ''7'' @ ''200'' # replicate 81 ''8''"
  have p7: "py_int (strip ''7'') \<noteq> Inr 100" by code_simp
  have p8: "py_int (strip ''8'') \<noteq> Inr 100" by code_simp
  have p200: "py_int (strip ''200'') \<noteq> Inr 100" by code_simp
  have h: "\<forall>i < length ?X. py_int (strip (?X ! i)) = Inr 100
          \<longrightarrow> current_grid (read_loop init (take i ?X)) = []"
  proof (intro allI impI)
    fix i
    assume i: "i < length ?X" and m: "py_int (strip (?X ! i)) = Inr 100"
    show "current_grid (read_loop init (take i ?X)) = []"
    proof (cases i)
      case 0
      then show ?thesis by (simp add: read_loop_Nil init_def)
    next
      case (Suc j)
      let ?T = "replicate 81 ''7'' @ ''200'' # replicate 81 ''8''"
      from Suc i have j: "j < length ?T"
        by simp
      have "?X ! i = ?T ! j"
        unfolding Suc by (rule nth_Cons_Suc)
      with nth_mem [OF j] have "?X ! i \<in> set ?T"
        by simp
      then have "?X ! i = ''7'' \<or> ?X ! i = ''200'' \<or> ?X ! i = ''8''"
        by auto
      with m p7 p8 p200 show ?thesis by metis
    qed
  qed
  have c: "collect ?X = [replicate 81 7, replicate 81 8]"
    by code_simp
  from collected_grid_sizes [of ?X] h
  have all: "\<forall>g \<in> set (collect ?X). length g = 81"
    by blast
  have l0: "length (collect ?X ! 0) = 81"
    using all c by simp
  have l1: "length (collect ?X ! 1) = 81"
    using all c by simp
  have m: "py_int (strip ''100'') = Inr 100" by code_simp
  have b: "current_grid (read_loop init [''5'', ''6'']) = [5, 6]" by code_simp
  from collected_grid_sizes [of "[''5'', ''6'']" "''100''"] m b
  have "grids (process_line (read_loop init [''5'', ''6'']) ''100'')
      = grids (read_loop init [''5'', ''6'']) @ [current_grid (read_loop init [''5'', ''6''])]"
    by simp
  moreover have "grids (read_loop init [''5'', ''6'']) = []" by code_simp
  ultimately have g: "grids (process_line (read_loop init [''5'', ''6'']) ''100'') = [[5, 6]]"
    using b by simp
  have f: "marker_100_flushes init [''5'', ''6'', ''100''] = [[5, 6]]" by code_simp
  from collected_grid_sizes [of "[''5'', ''6'', ''100'']"] f
  have s: "filter (\<lambda>g. length g \<noteq> 81) (collect [''5'', ''6'', ''100'']) = [[5, 6]]"
    by simp
  from c l0 l1 m b g f s show ?thesis by blast
qed

text \<open>
  C2, as stated, fails: a value followed by the marker 100 is collected as a grid of
  one cell.
\<close>

theorem collect_short_grid:
  "collect [''5'', ''100''] = [[5]] \<and> length (collect [''5'', ''100''] ! 0) \<noteq> 81"
proof -
  have "collect [''5'', ''100''] = [[5]]"
    by code_simp
  then show ?thesis by simp
qed

text \<open>
  C4. In the state \<open>s\<close> reached after any sequence of lines, the buffer holds at most 80
  values. So the marker 200 and the end of the input never append a grid; a line
  appends a grid only as the marker 100 flushing a buffer of 1 to 80 values, or as a
  cell value completing a buffer of exactly 81 values; and every grid of the final
  collection holds between 1 and 81 values.
\<close>

theorem buffer_below_81:
  assumes "s = read_loop init stdin"
  shows "length (current_grid s) \<le> 80
    \<and> (py_int (strip l) = Inr 200 \<longrightarrow> grids (process_line s l) = grids s)
    \<and> final_flush s = s
    \<and> (grids (process_line s l) = grids s
       \<or> (py_int (strip l) = Inr 100 \<and> grids (process_line s l) = grids s @ [current_grid s]
           \<and> 1 \<le> length (current_grid s) \<and> length (current_grid s) \<le> 80)
       \<or> (\<exists>n. py_int (strip l) = Inr n \<and> 0 \<le> n \<and> n \<le> 99
           \<and> grids (process_line s l) = grids s @ [current_grid s @ [n]]
           \<and> length (current_grid s @ [n]) = 81))
    \<and> (\<forall>g \<in> set (collect stdin). 1 \<le> length g \<and> length g \<le> 81)"
proof -
  have buf: "length (current_grid s) \<le> 80"
    unfolding assms by (rule reachable_buffer)
  have m200: "py_int (strip l) = Inr 200 \<longrightarrow> grids (process_line s l) = grids s"
    using buf by (simp add: process_line_200)
  have fin: "final_flush s = s"
    by (rule final_flush_short [OF buf])
  have src: "grids (process_line s l) = grids s
       \<or> (py_int (strip l) = Inr 100 \<and> grids (process_line s l) = grids s @ [current_grid s]
           \<and> 1 \<le> length (current_grid s) \<and> length (current_grid s) \<le> 80)
       \<or> (\<exists>n. py_int (strip l) = Inr n \<and> 0 \<le> n \<and> n \<le> 99
           \<and> grids (process_line s l) = grids s @ [current_grid s @ [n]]
           \<and> length (current_grid s @ [n]) = 81)"
  proof (cases l rule: line_cases)
    case skip
    then show ?thesis by (auto simp add: process_line_blank process_line_error)
  next
    case m100
    then show ?thesis using buf by (cases "current_grid s") (simp_all add: process_line_100)
  next
    case m200
    then show ?thesis using buf by (simp add: process_line_200)
  next
    case (noise n)
    then show ?thesis by (simp add: process_line_noise)
  next
    case (cell n)
    show ?thesis
    proof (cases "length (current_grid s) \<ge> 80")
      case True
      with buf have "length (current_grid s) = 80" by simp
      with cell show ?thesis by (simp add: process_line_cell)
    next
      case False
      with cell show ?thesis by (simp add: process_line_cell)
    qed
  qed
  from buf m200 fin src collect_sizes [of stdin] show ?thesis
    by blast
qed

theorem buffer_below_81_witness:
  "length (current_grid (read_loop init [''5''])) \<le> 80
   \<and> final_flush (read_loop init [''5'']) = read_loop init [''5'']
   \<and> py_int (strip ''100'') = Inr 100
   \<and> grids (process_line (read_loop init [''5'']) ''100'') = [[5]]
   \<and> collect [''5'', ''100''] = [[5]]"
proof -
  have a: "py_int (strip ''100'') = Inr 100"
    by code_simp
  have b: "grids (process_line (read_loop init [''5'']) ''100'') = [[5]]"
    by code_simp
  have c: "collect [''5'', ''100''] = [[5]]"
    by code_simp
  from buffer_below_81 [of "read_loop init [''5'']" "[''5'']" "''100''"] a b c
  show ?thesis by blast
qed

text \<open>
  C5. A line that parses to 100 appends the buffer, when it is not empty, to the
  collection as it stands, whatever its length, and empties the buffer in both cases.
  The value 100 is never stored: it is in no grid of the collection and not in the
  buffer, whatever the input.
\<close>

theorem marker_100_flush:
  "(py_int (strip l) = Inr 100 \<longrightarrow>
      process_line s l =
        s\<lparr>grids := (if current_grid s \<noteq> [] then grids s @ [current_grid s] else grids s),
          current_grid := []\<rparr>)
   \<and> 100 \<notin> set (current_grid (read_loop init stdin))
   \<and> (\<forall>g \<in> set (grids (read_loop init stdin)). 100 \<notin> set g)
   \<and> (\<forall>g \<in> set (collect stdin). 100 \<notin> set g)"
proof -
  have "py_int (strip l) = Inr 100 \<longrightarrow>
      process_line s l =
        s\<lparr>grids := (if current_grid s \<noteq> [] then grids s @ [current_grid s] else grids s),
          current_grid := []\<rparr>"
    by (simp add: process_line_100)
  moreover have "100 \<notin> set (current_grid (read_loop init stdin))"
    using reachable_values [of stdin] by auto
  moreover have g: "\<forall>g \<in> set (grids (read_loop init stdin)). 100 \<notin> set g"
    using reachable_values [of stdin] by fastforce
  moreover have "\<forall>g \<in> set (collect stdin). 100 \<notin> set g"
    using g by (simp add: collect_read_loop)
  ultimately show ?thesis by blast
qed

theorem marker_100_flush_witness:
  "py_int (strip ''100'') = Inr 100
   \<and> process_line \<lparr>current_grid = [4, 2], grids = [[9]], printed = []\<rparr> ''100''
       = \<lparr>current_grid = [], grids = [[9], [4, 2]], printed = []\<rparr>
   \<and> process_line \<lparr>current_grid = [], grids = [[9]], printed = []\<rparr> ''100''
       = \<lparr>current_grid = [], grids = [[9]], printed = []\<rparr>"
proof -
  have a: "py_int (strip ''100'') = Inr 100"
    by code_simp
  from marker_100_flush [of "''100''" "\<lparr>current_grid = [4, 2], grids = [[9]], printed = []\<rparr>"] a
  have b: "process_line \<lparr>current_grid = [4, 2], grids = [[9]], printed = []\<rparr> ''100''
       = \<lparr>current_grid = [], grids = [[9], [4, 2]], printed = []\<rparr>"
    by simp
  from marker_100_flush [of "''100''" "\<lparr>current_grid = [], grids = [[9]], printed = []\<rparr>"] a
  have c: "process_line \<lparr>current_grid = [], grids = [[9]], printed = []\<rparr> ''100''
       = \<lparr>current_grid = [], grids = [[9]], printed = []\<rparr>"
    by simp
  from a b c show ?thesis by blast
qed

text \<open>
  C6. An input of exactly 81 lines, each parsing to an integer from 0 to 99, yields
  exactly one grid: those 81 values in the order of the input.
\<close>

theorem collect_81_cells:
  assumes "map (\<lambda>l. py_int (strip l)) stdin = map Inr vs"
    and "length vs = 81"
    and "\<forall>v \<in> set vs. 0 \<le> v \<and> v \<le> 99"
  shows "collect stdin = [vs]"
proof -
  from assms(2) have "vs \<noteq> []" by auto
  then obtain ws w where vs: "vs = ws @ [w]"
    by (cases vs rule: rev_cases) auto
  from assms(1) have "length stdin = length vs"
    using length_map by metis
  with vs have "stdin \<noteq> []" by auto
  then obtain ls l where stdin: "stdin = ls @ [l]"
    by (cases stdin rule: rev_cases) auto
  from assms(1) vs stdin have ls: "map (\<lambda>l. py_int (strip l)) ls = map Inr ws"
    and l: "py_int (strip l) = Inr w"
    by simp_all
  from assms(3) vs have ws: "\<forall>v \<in> set ws. 0 \<le> v \<and> v \<le> 99" and w: "0 \<le> w" "w \<le> 99"
    by simp_all
  from assms(2) vs have len: "length ws = 80" by simp
  have "read_loop init ls = init\<lparr>current_grid := current_grid init @ ws\<rparr>"
    by (rule read_loop_cells [OF ls ws]) (simp add: init_def len)
  then have before: "read_loop init ls = init\<lparr>current_grid := ws\<rparr>"
    by (simp add: init_def)
  have "grids (process_line (init\<lparr>current_grid := ws\<rparr>) l) = [take 81 (ws @ [w])]"
    using process_line_cell [OF l w, of "init\<lparr>current_grid := ws\<rparr>"] len
    by (simp add: init_def)
  then show ?thesis
    by (simp add: collect_read_loop stdin read_loop_snoc before vs len)
qed

theorem collect_81_cells_witness:
  "collect (map str_int [0..80]) = [[0..80]]"
proof -
  have a: "map (\<lambda>l. py_int (strip l)) (map str_int [0..80]) = map Inr [0..80]"
    by code_simp
  have b: "length [0..80::int] = 81"
    by simp
  have c: "\<forall>v \<in> set [0..80::int]. 0 \<le> v \<and> v \<le> 99"
    by simp
  from collect_81_cells [OF a b c] show ?thesis .
qed

text \<open>
  C9. A line that is blank, that does not parse as an integer, or that parses to a
  negative value or to a value of at least 100 other than 100 and 200, leaves the whole
  state as it is: the buffer, the collection and the standard output. The loop body
  handles the only error raised, so it returns a state for every line.
\<close>

theorem ignored_line_unchanged:
  assumes "strip l = [] \<or> py_int (strip l) = Inl ValueError
    \<or> (\<exists>n. py_int (strip l) = Inr n \<and> (n < 0 \<or> (n \<ge> 100 \<and> n \<noteq> 100 \<and> n \<noteq> 200)))"
  shows "process_line s l = s"
  using assms by (auto simp add: process_line_blank process_line_error process_line_noise)

theorem ignored_line_unchanged_witness:
  "process_line \<lparr>current_grid = [4, 2], grids = [[9]], printed = []\<rparr> ''   ''
     = \<lparr>current_grid = [4, 2], grids = [[9]], printed = []\<rparr>
   \<and> process_line \<lparr>current_grid = [4, 2], grids = [[9]], printed = []\<rparr> ''hello''
     = \<lparr>current_grid = [4, 2], grids = [[9]], printed = []\<rparr>
   \<and> process_line \<lparr>current_grid = [4, 2], grids = [[9]], printed = []\<rparr> ''-1''
     = \<lparr>current_grid = [4, 2], grids = [[9]], printed = []\<rparr>
   \<and> process_line \<lparr>current_grid = [4, 2], grids = [[9]], printed = []\<rparr> ''150''
     = \<lparr>current_grid = [4, 2], grids = [[9]], printed = []\<rparr>"
proof -
  have a: "strip ''   '' = []"
    by code_simp
  have b: "py_int (strip ''hello'') = Inl ValueError"
    by code_simp
  have c: "py_int (strip ''-1'') = Inr (- 1)"
    by code_simp
  have d: "py_int (strip ''150'') = Inr 150"
    by code_simp
  show ?thesis
    using ignored_line_unchanged [of "''   ''"] ignored_line_unchanged [of "''hello''"]
      ignored_line_unchanged [of "''-1''"] ignored_line_unchanged [of "''150''"] a b c d
    by simp
qed

section \<open>Properties of print_grid and of the printing part\<close>

lemma upt_9: "[0..<9] = [0, 1, 2, 3, 4, 5, 6, 7, 8]"
  by (simp add: upt_conv_Cons)

lemma format_display:
  "format_right2 (if idx < length grid
             then (let val = grid ! idx in if val = 0 then PyStr ''.'' else PyInt val)
             else PyStr ''.'') = rjust 2 (spec_display grid idx)"
  by (simp add: spec_display_def Let_def)

lemma row_cell_spec:
  "row_cell grid i row_str j =
     row_str @ (if j = 3 \<or> j = 6 then ''| '' else []) @ spec_cell grid (i * 9 + j)" if "j < 9"
proof -
  have "(j > 0 \<and> j mod 3 = 0) = (j = 3 \<or> j = 6)"
    using that by presburger
  then show ?thesis
    by (simp add: row_cell_def spec_cell_def spec_display_def Let_def)
qed

lemma row_loop_spec: "foldl (row_cell grid i) ''| '' [0..<9] @ ''|'' = spec_row grid i"
  unfolding upt_9 spec_row_def by (simp add: row_cell_spec)

lemma grid_row_spec:
  "i < 9 \<Longrightarrow> grid_row grid out i =
     out @ (if i = 3 \<or> i = 6 then [replicate 35 CHR ''-''] else []) @ [spec_row grid i]"
proof -
  assume "i < 9"
  then have "(i > 0 \<and> i mod 3 = 0) = (i = 3 \<or> i = 6)"
    by presburger
  moreover have "''-----------------------------------'' = replicate 35 CHR ''-''"
    by (simp add: eval_nat_numeral)
  ultimately show ?thesis
    by (simp add: grid_row_def py_print_def Let_def row_loop_spec)
qed

lemma print_grid_calls:
  "print_grid label grid out = out @ (newline # replicate 37 CHR ''='') # drop 2 (spec_lines label grid)"
  unfolding print_grid_def spec_lines_def upt_9 Let_def py_print_def
  by (simp add: grid_row_spec)

lemma stdout_text_append: "stdout_text (xs @ ys) = stdout_text xs @ stdout_text ys"
  by (simp add: stdout_text_def)

lemma spec_lines_split: "spec_lines label grid = [] # replicate 37 CHR ''='' # drop 2 (spec_lines label grid)"
  by (simp add: spec_lines_def)


lemma print_grid_text: "stdout_text (print_grid label grid []) = unlines (spec_lines label grid)"
proof -
  have "stdout_text ((newline # replicate 37 CHR ''='') # drop 2 (spec_lines label grid))
      = unlines ([] # replicate 37 CHR ''='' # drop 2 (spec_lines label grid))"
    by (simp add: unlines_def stdout_text_def)
  also have "\<dots> = unlines (spec_lines label grid)"
    using spec_lines_split [of label grid] by simp
  finally show ?thesis
    by (simp add: print_grid_calls)
qed

lemma print_grid_append: "print_grid label grid out = out @ print_grid label grid []"
  by (simp add: print_grid_calls)

lemma length_print_grid: "length (print_grid label grid []) = 16"
  by (simp add: print_grid_calls spec_lines_def upt_9)

lemma final_flush_printed: "printed (final_flush s) = printed s"
  by (simp add: final_flush_def)

lemma run_output_print_grids: "run_output stdin = print_grids (collect stdin) []"
  by (simp add: run_output_def format_sudoku_def collect_def Let_def final_flush_printed
      read_loop_printed init_def)

lemma print_grids_two:
  "2 \<le> length gs \<Longrightarrow>
     print_grids gs out = out @ print_grid label_initial (gs ! 0) [] @ print_grid label_solved (gs ! 1) []"
  using print_grid_append [of label_solved "gs ! 1" "print_grid label_initial (gs ! 0) out"]
    print_grid_append [of label_initial "gs ! 0" out]
  by (simp add: print_grids_def Let_def)

lemma print_grids_one:
  "length gs = 1 \<Longrightarrow>
     print_grids gs out = out @ print_grid label_initial (gs ! 0) []
        @ (if length (gs ! 0) = 81 then [note_no_solved] else [])"
  using print_grid_append [of label_initial "gs ! 0" out]
  by (simp add: print_grids_def Let_def py_print_def)

lemma print_grids_none: "gs = [] \<Longrightarrow> print_grids gs out = out"
  by (simp add: print_grids_def)

lemma print_grid_entries:
  assumes "x \<in> set (print_grid label grid [])"
  shows "x = label \<or> x = [] \<or> length x = 38 \<or> hd x \<in> {CHR ''|'', CHR ''-'', CHR ''=''}"
  using assms unfolding print_grid_calls spec_lines_def upt_9 spec_row_def
  by (auto simp add: eval_nat_numeral)

lemma length_note: "length note_no_solved = 70"
  by (simp add: note_no_solved_def)

lemma hd_note: "hd note_no_solved = CHR 0x0A"
  by (simp add: note_no_solved_def)

lemma note_not_label: "note_no_solved \<noteq> label_initial" "note_no_solved \<noteq> label_solved"
  by (simp_all add: note_no_solved_def label_initial_def label_solved_def)

lemma note_not_in_print_grid:
  assumes "note_no_solved \<noteq> label"
  shows "note_no_solved \<notin> set (print_grid label grid [])"
proof
  assume "note_no_solved \<in> set (print_grid label grid [])"
  from print_grid_entries [OF this] assms
  show False
    using length_note hd_note by auto
qed

lemma note_in_print_grids:
  "note_no_solved \<in> set (print_grids gs []) \<longleftrightarrow> length gs = 1 \<and> length (gs ! 0) = 81"
proof -
  consider "gs = []" | "length gs = 1" | "2 \<le> length gs"
    by (cases gs) (auto simp add: Suc_le_eq)
  then show ?thesis
  proof cases
    case 1
    then show ?thesis by (simp add: print_grids_none)
  next
    case 2
    then show ?thesis
      by (simp add: print_grids_one note_not_in_print_grid note_not_label)
  next
    case 3
    then show ?thesis
      by (simp add: print_grids_two note_not_in_print_grid note_not_label)
  qed
qed


section \<open>The claims about the printed output\<close>

text \<open>
  C3, as amended. When at least one grid is collected, the output starts with the first
  grid rendered under the label \<open>label_initial\<close>; when at least two are collected, the
  output is that followed by the second grid rendered under the label \<open>label_solved\<close>.
  Both labels are the Russian texts of the script. A call of \<open>print_grid\<close> prints 16
  times, and the label is what it prints second.
\<close>

theorem rendered_labels:
  "(1 \<le> length (collect stdin) \<longrightarrow>
      take 16 (run_output stdin) = print_grid label_initial (collect stdin ! 0) [])
   \<and> (2 \<le> length (collect stdin) \<longrightarrow>
      run_output stdin = print_grid label_initial (collect stdin ! 0) []
                         @ print_grid label_solved (collect stdin ! 1) [])
   \<and> print_grid label grid [] ! 1 = label"
proof (intro conjI impI)
  assume a: "1 \<le> length (collect stdin)"
  show "take 16 (run_output stdin) = print_grid label_initial (collect stdin ! 0) []"
  proof (cases "2 \<le> length (collect stdin)")
    case True
    then show ?thesis
      by (simp add: run_output_print_grids print_grids_two length_print_grid)
  next
    case False
    with a have "length (collect stdin) = 1" by simp
    then show ?thesis
      by (simp add: run_output_print_grids print_grids_one length_print_grid)
  qed
next
  assume "2 \<le> length (collect stdin)"
  then show "run_output stdin = print_grid label_initial (collect stdin ! 0) []
                         @ print_grid label_solved (collect stdin ! 1) []"
    by (simp add: run_output_print_grids print_grids_two)
next
  show "print_grid label grid [] ! 1 = label"
    by (simp add: print_grid_calls spec_lines_def)
qed

theorem rendered_labels_witness:
  "collect [''5'', ''100'', ''6'', ''100''] = [[5], [6]]
   \<and> take 16 (run_output [''5'', ''100'', ''6'', ''100'']) = print_grid label_initial [5] []
   \<and> run_output [''5'', ''100'', ''6'', ''100'']
       = print_grid label_initial [5] [] @ print_grid label_solved [6] []"
proof -
  have c: "collect [''5'', ''100'', ''6'', ''100''] = [[5], [6]]"
    by code_simp
  have l: "1 \<le> length (collect [''5'', ''100'', ''6'', ''100''])"
      "2 \<le> length (collect [''5'', ''100'', ''6'', ''100''])"
    by (simp_all add: c)
  note r = rendered_labels [of "[''5'', ''100'', ''6'', ''100'']" "[]" "[]"]
  from r l have "take 16 (run_output [''5'', ''100'', ''6'', ''100''])
      = print_grid label_initial (collect [''5'', ''100'', ''6'', ''100''] ! 0) []"
    by blast
  then have t: "take 16 (run_output [''5'', ''100'', ''6'', ''100''])
      = print_grid label_initial [5] []"
    by (simp add: c)
  from r l have "run_output [''5'', ''100'', ''6'', ''100'']
      = print_grid label_initial (collect [''5'', ''100'', ''6'', ''100''] ! 0) []
        @ print_grid label_solved (collect [''5'', ''100'', ''6'', ''100''] ! 1) []"
    by blast
  then have u: "run_output [''5'', ''100'', ''6'', ''100'']
      = print_grid label_initial [5] [] @ print_grid label_solved [6] []"
    by (simp add: c)
  from c t u show ?thesis by blast
qed

text \<open>
  C3, as stated, fails: the texts \<open>Initial grid:\<close> and \<open>Solved grid:\<close> are not
  printed; the labels printed are Russian.
\<close>

theorem english_labels_not_printed:
  "collect [''5'', ''100'', ''6'', ''100''] = [[5], [6]]
   \<and> ''Initial grid:'' \<notin> set (run_output [''5'', ''100'', ''6'', ''100''])
   \<and> ''Solved grid:'' \<notin> set (run_output [''5'', ''100'', ''6'', ''100''])
   \<and> run_output [''5'', ''100'', ''6'', ''100''] ! 1 = label_initial
   \<and> run_output [''5'', ''100'', ''6'', ''100''] ! 17 = label_solved
   \<and> label_initial \<noteq> ''Initial grid:''
   \<and> label_solved \<noteq> ''Solved grid:''"
proof (intro conjI)
  show "collect [''5'', ''100'', ''6'', ''100''] = [[5], [6]]"
    by code_simp
  show "''Initial grid:'' \<notin> set (run_output [''5'', ''100'', ''6'', ''100''])"
    by code_simp
  show "''Solved grid:'' \<notin> set (run_output [''5'', ''100'', ''6'', ''100''])"
    by code_simp
  show "run_output [''5'', ''100'', ''6'', ''100''] ! 1 = label_initial"
    by code_simp
  show "run_output [''5'', ''100'', ''6'', ''100''] ! 17 = label_solved"
    by code_simp
  show "label_initial \<noteq> ''Initial grid:''"
    by (simp add: label_initial_def)
  show "label_solved \<noteq> ''Solved grid:''"
    by (simp add: label_solved_def)
qed

text \<open>
  C7. The note that no solved grid was found is printed exactly when one grid was
  collected and that grid holds exactly 81 values. So a single grid of fewer than 81
  values, as the marker 100 can flush, gets no note.
\<close>

theorem note_printed_iff:
  "(note_no_solved \<in> set (run_output stdin))
     = (length (collect stdin) = 1 \<and> length (collect stdin ! 0) = 81)"
  by (simp add: run_output_print_grids note_in_print_grids)

theorem note_printed_iff_witness:
  "note_no_solved \<in> set (run_output (replicate 81 ''7''))
   \<and> collect [''5'', ''100''] = [[5]]
   \<and> note_no_solved \<notin> set (run_output [''5'', ''100''])"
proof -
  have a: "collect (replicate 81 ''7'') = [replicate 81 7]"
    by code_simp
  have b: "collect [''5'', ''100''] = [[5]]"
    by code_simp
  from note_printed_iff [of "replicate 81 ''7''"] note_printed_iff [of "[''5'', ''100'']"] a b
  show ?thesis by simp
qed

text \<open>
  C8. For every label and every grid, \<open>print_grid\<close> writes exactly the lines of
  \<open>spec_lines\<close>, each ended by a newline, after what was written before: a blank line,
  37 equals signs, the label, 37 equals signs, the nine rows with a line of 35 dashes
  before rows 3 and 6, 37 equals signs and a blank line. A row is a bar and a space,
  nine cells with a bar and a space before columns 3 and 6, and a closing bar; a cell
  is the display value right-aligned in width 2 and a space; the display value at index
  \<open>i * 9 + j\<close> is the stored integer, or a dot when that integer is 0 or the index is
  beyond the grid.
\<close>

theorem print_grid_layout:
  "stdout_text (print_grid label grid out) = stdout_text out @ unlines (spec_lines label grid)"
proof -
  have "unlines (spec_lines label grid)
      = unlines ([] # replicate 37 CHR ''='' # drop 2 (spec_lines label grid))"
    using spec_lines_split [of label grid] by simp
  also have "\<dots> = stdout_text ((newline # replicate 37 CHR ''='') # drop 2 (spec_lines label grid))"
    by (simp add: unlines_def stdout_text_def)
  finally show ?thesis
    by (simp add: print_grid_calls stdout_text_append)
qed

theorem print_grid_layout_witness:
  "stdout_text (print_grid ''Grid:'' [5, 0, 3, 12] []) =
     unlines
      [[],
       ''====================================='',
       ''Grid:'',
       ''====================================='',
       ''|  5  .  3 | 12  .  . |  .  .  . |'',
       ''|  .  .  . |  .  .  . |  .  .  . |'',
       ''|  .  .  . |  .  .  . |  .  .  . |'',
       ''-----------------------------------'',
       ''|  .  .  . |  .  .  . |  .  .  . |'',
       ''|  .  .  . |  .  .  . |  .  .  . |'',
       ''|  .  .  . |  .  .  . |  .  .  . |'',
       ''-----------------------------------'',
       ''|  .  .  . |  .  .  . |  .  .  . |'',
       ''|  .  .  . |  .  .  . |  .  .  . |'',
       ''|  .  .  . |  .  .  . |  .  .  . |'',
       ''====================================='',
       []]"
proof -
  have "spec_lines ''Grid:'' [5, 0, 3, 12] =
      [[],
       ''====================================='',
       ''Grid:'',
       ''====================================='',
       ''|  5  .  3 | 12  .  . |  .  .  . |'',
       ''|  .  .  . |  .  .  . |  .  .  . |'',
       ''|  .  .  . |  .  .  . |  .  .  . |'',
       ''-----------------------------------'',
       ''|  .  .  . |  .  .  . |  .  .  . |'',
       ''|  .  .  . |  .  .  . |  .  .  . |'',
       ''|  .  .  . |  .  .  . |  .  .  . |'',
       ''-----------------------------------'',
       ''|  .  .  . |  .  .  . |  .  .  . |'',
       ''|  .  .  . |  .  .  . |  .  .  . |'',
       ''|  .  .  . |  .  .  . |  .  .  . |'',
       ''====================================='',
       []]"
    by code_simp
  with print_grid_layout [of "''Grid:''" "[5, 0, 3, 12]" "[]"] show ?thesis
    by (simp add: stdout_text_def)
qed

text \<open>
  C10. When more than two grids are collected, the output is the first grid rendered
  as the initial one followed by the second rendered as the solved one, and nothing
  else: it is the output for the first two grids alone, and the text written is the
  table of the first grid under the label \<open>label_initial\<close> followed by the table of the
  second grid under the label \<open>label_solved\<close>. No grid from the third onward is
  rendered.
\<close>

theorem extra_grids_ignored:
  assumes "2 < length (collect stdin)"
  shows "run_output stdin = print_grid label_initial (collect stdin ! 0) []
                            @ print_grid label_solved (collect stdin ! 1) []
    \<and> run_output stdin = print_grids (take 2 (collect stdin)) []
    \<and> stdout_text (run_output stdin)
        = unlines (spec_lines label_initial (collect stdin ! 0))
          @ unlines (spec_lines label_solved (collect stdin ! 1))"
proof -
  from assms have two: "2 \<le> length (collect stdin)" "2 \<le> length (take 2 (collect stdin))"
    by simp_all
  have calls: "run_output stdin = print_grid label_initial (collect stdin ! 0) []
                            @ print_grid label_solved (collect stdin ! 1) []"
    using two by (simp add: run_output_print_grids print_grids_two)
  have first_two: "run_output stdin = print_grids (take 2 (collect stdin)) []"
    using two by (simp add: run_output_print_grids print_grids_two)
  have "stdout_text (run_output stdin)
        = stdout_text (print_grid label_initial (collect stdin ! 0) [])
          @ stdout_text (print_grid label_solved (collect stdin ! 1) [])"
    unfolding calls by (rule stdout_text_append)
  then have written: "stdout_text (run_output stdin)
        = unlines (spec_lines label_initial (collect stdin ! 0))
          @ unlines (spec_lines label_solved (collect stdin ! 1))"
    by (simp only: print_grid_text)
  from calls first_two written show ?thesis
    by blast
qed

theorem extra_grids_ignored_witness:
  "collect [''1'', ''100'', ''2'', ''100'', ''3'', ''100''] = [[1], [2], [3]]
   \<and> run_output [''1'', ''100'', ''2'', ''100'', ''3'', ''100'']
       = print_grid label_initial [1] [] @ print_grid label_solved [2] []
   \<and> stdout_text (run_output [''1'', ''100'', ''2'', ''100'', ''3'', ''100''])
       = unlines
          [[],
           ''====================================='',
           label_initial,
           ''====================================='',
           ''|  1  .  . |  .  .  . |  .  .  . |'',
           ''|  .  .  . |  .  .  . |  .  .  . |'',
           ''|  .  .  . |  .  .  . |  .  .  . |'',
           ''-----------------------------------'',
           ''|  .  .  . |  .  .  . |  .  .  . |'',
           ''|  .  .  . |  .  .  . |  .  .  . |'',
           ''|  .  .  . |  .  .  . |  .  .  . |'',
           ''-----------------------------------'',
           ''|  .  .  . |  .  .  . |  .  .  . |'',
           ''|  .  .  . |  .  .  . |  .  .  . |'',
           ''|  .  .  . |  .  .  . |  .  .  . |'',
           ''====================================='',
           []]
         @ unlines
          [[],
           ''====================================='',
           label_solved,
           ''====================================='',
           ''|  2  .  . |  .  .  . |  .  .  . |'',
           ''|  .  .  . |  .  .  . |  .  .  . |'',
           ''|  .  .  . |  .  .  . |  .  .  . |'',
           ''-----------------------------------'',
           ''|  .  .  . |  .  .  . |  .  .  . |'',
           ''|  .  .  . |  .  .  . |  .  .  . |'',
           ''|  .  .  . |  .  .  . |  .  .  . |'',
           ''-----------------------------------'',
           ''|  .  .  . |  .  .  . |  .  .  . |'',
           ''|  .  .  . |  .  .  . |  .  .  . |'',
           ''|  .  .  . |  .  .  . |  .  .  . |'',
           ''====================================='',
           []]"
proof -
  have c: "collect [''1'', ''100'', ''2'', ''100'', ''3'', ''100''] = [[1], [2], [3]]"
    by code_simp
  then have l: "2 < length (collect [''1'', ''100'', ''2'', ''100'', ''3'', ''100''])"
    by simp
  note r = extra_grids_ignored [OF l]
  from r have "run_output [''1'', ''100'', ''2'', ''100'', ''3'', ''100'']
       = print_grid label_initial (collect [''1'', ''100'', ''2'', ''100'', ''3'', ''100''] ! 0) []
         @ print_grid label_solved (collect [''1'', ''100'', ''2'', ''100'', ''3'', ''100''] ! 1) []"
    by blast
  then have calls: "run_output [''1'', ''100'', ''2'', ''100'', ''3'', ''100'']
       = print_grid label_initial [1] [] @ print_grid label_solved [2] []"
    by (simp add: c)
  from r have "stdout_text (run_output [''1'', ''100'', ''2'', ''100'', ''3'', ''100''])
       = unlines (spec_lines label_initial (collect [''1'', ''100'', ''2'', ''100'', ''3'', ''100''] ! 0))
         @ unlines (spec_lines label_solved (collect [''1'', ''100'', ''2'', ''100'', ''3'', ''100''] ! 1))"
    by blast
  then have t: "stdout_text (run_output [''1'', ''100'', ''2'', ''100'', ''3'', ''100''])
       = unlines (spec_lines label_initial [1]) @ unlines (spec_lines label_solved [2])"
    by (simp add: c)
  have s1: "spec_lines label_initial [1] =
          [[],
           ''====================================='',
           label_initial,
           ''====================================='',
           ''|  1  .  . |  .  .  . |  .  .  . |'',
           ''|  .  .  . |  .  .  . |  .  .  . |'',
           ''|  .  .  . |  .  .  . |  .  .  . |'',
           ''-----------------------------------'',
           ''|  .  .  . |  .  .  . |  .  .  . |'',
           ''|  .  .  . |  .  .  . |  .  .  . |'',
           ''|  .  .  . |  .  .  . |  .  .  . |'',
           ''-----------------------------------'',
           ''|  .  .  . |  .  .  . |  .  .  . |'',
           ''|  .  .  . |  .  .  . |  .  .  . |'',
           ''|  .  .  . |  .  .  . |  .  .  . |'',
           ''====================================='',
           []]"
    by code_simp
  have s2: "spec_lines label_solved [2] =
          [[],
           ''====================================='',
           label_solved,
           ''====================================='',
           ''|  2  .  . |  .  .  . |  .  .  . |'',
           ''|  .  .  . |  .  .  . |  .  .  . |'',
           ''|  .  .  . |  .  .  . |  .  .  . |'',
           ''-----------------------------------'',
           ''|  .  .  . |  .  .  . |  .  .  . |'',
           ''|  .  .  . |  .  .  . |  .  .  . |'',
           ''|  .  .  . |  .  .  . |  .  .  . |'',
           ''-----------------------------------'',
           ''|  .  .  . |  .  .  . |  .  .  . |'',
           ''|  .  .  . |  .  .  . |  .  .  . |'',
           ''|  .  .  . |  .  .  . |  .  .  . |'',
           ''====================================='',
           []]"
    by code_simp
  from t have written: "stdout_text (run_output [''1'', ''100'', ''2'', ''100'', ''3'', ''100''])
       = unlines
          [[],
           ''====================================='',
           label_initial,
           ''====================================='',
           ''|  1  .  . |  .  .  . |  .  .  . |'',
           ''|  .  .  . |  .  .  . |  .  .  . |'',
           ''|  .  .  . |  .  .  . |  .  .  . |'',
           ''-----------------------------------'',
           ''|  .  .  . |  .  .  . |  .  .  . |'',
           ''|  .  .  . |  .  .  . |  .  .  . |'',
           ''|  .  .  . |  .  .  . |  .  .  . |'',
           ''-----------------------------------'',
           ''|  .  .  . |  .  .  . |  .  .  . |'',
           ''|  .  .  . |  .  .  . |  .  .  . |'',
           ''|  .  .  . |  .  .  . |  .  .  . |'',
           ''====================================='',
           []]
         @ unlines
          [[],
           ''====================================='',
           label_solved,
           ''====================================='',
           ''|  2  .  . |  .  .  . |  .  .  . |'',
           ''|  .  .  . |  .  .  . |  .  .  . |'',
           ''|  .  .  . |  .  .  . |  .  .  . |'',
           ''-----------------------------------'',
           ''|  .  .  . |  .  .  . |  .  .  . |'',
           ''|  .  .  . |  .  .  . |  .  .  . |'',
           ''|  .  .  . |  .  .  . |  .  .  . |'',
           ''-----------------------------------'',
           ''|  .  .  . |  .  .  . |  .  .  . |'',
           ''|  .  .  . |  .  .  . |  .  .  . |'',
           ''|  .  .  . |  .  .  . |  .  .  . |'',
           ''====================================='',
           []]"
    by (simp only: s1 s2)
  from c calls written show ?thesis
    by blast
qed

end
